theory Spec2Isabelle
  imports Main
begin

section \<open>The job-listing filter widget (\<open>src/js/jobs.js\<close>)\<close>

text \<open>
  The script keeps two page-lifetime variables, \<open>activeFilters\<close> (a JavaScript \<open>Set\<close>)
  and \<open>jobs\<close> (an array), and writes into three places of the document: the
  \<open>innerHTML\<close> of \<open>#job-listings\<close>, the \<open>style.display\<close> of \<open>#filter-bar\<close> and the
  \<open>innerHTML\<close> of \<open>#filter-tags\<close>. The embedding passes all of them around in one record.
  An exception thrown by the script is a value: a function that can throw returns a sum
  whose left injection is the error, and a state-changing function returns the state it
  had reached together with the error that left it. The two \<open>innerHTML\<close> fields hold the
  markup the script assigned last.
\<close>

subsection \<open>Values, errors and job records\<close>

text \<open>
  A text value of the script: either a string, or \<open>undefined\<close>, which is what reading
  a field that the object does not have gives (and what \<open>dataset.x\<close> gives when the
  element has no \<open>data-x\<close> attribute).
\<close>

datatype jsval = Undefined | Str string

text \<open>What a template literal writes for \<open>${v}\<close>.\<close>

fun toString :: "jsval \<Rightarrow> string" where
  "toString Undefined = ''undefined''"
| "toString (Str s) = s"

datatype js_error = TypeError | SyntaxError | Error string

text \<open>
  A job object as \<open>data.json\<close> delivers it, with the field types of the data model
  (texts, two flags, two arrays of texts). Every field may be missing: a missing text
  field reads as \<open>Undefined\<close>, a missing array or flag as \<open>None\<close>.
\<close>

record job =
  company :: jsval
  logo :: jsval
  new :: "bool option"
  featured :: "bool option"
  position :: jsval
  role :: jsval
  level :: jsval
  postedAt :: jsval
  contract :: jsval
  location :: jsval
  languages :: "string list option"
  tools :: "string list option"

text \<open>The condition of \<open>flag ? a : b\<close>: a missing flag is falsy.\<close>

fun truthy :: "bool option \<Rightarrow> bool" where
  "truthy None = False"
| "truthy (Some b) = b"

subsection \<open>The JavaScript \<open>Set\<close>, in insertion order\<close>

text \<open>
  A \<open>Set\<close> is the list of its elements in the order they were first added;
  \<open>Array.from\<close> reads that list.
\<close>

definition Set_has :: "'a list \<Rightarrow> 'a \<Rightarrow> bool" where
  "Set_has s x = (x \<in> set s)"

definition Set_add :: "'a \<Rightarrow> 'a list \<Rightarrow> 'a list" where
  "Set_add x s = (if Set_has s x then s else s @ [x])"

definition Set_delete :: "'a \<Rightarrow> 'a list \<Rightarrow> 'a list" where
  "Set_delete x s = filter (\<lambda>y. y \<noteq> x) s"

definition Set_clear :: "'a list \<Rightarrow> 'a list" where
  "Set_clear s = []"

definition Set_size :: "'a list \<Rightarrow> nat" where
  "Set_size s = length s"

text \<open>\<open>new Set(array)\<close> adds the elements of the array one after the other.\<close>

definition Set_new :: "'a list \<Rightarrow> 'a list" where
  "Set_new xs = foldl (\<lambda>s x. Set_add x s) [] xs"

subsection \<open>Array methods whose callback may throw\<close>

text \<open>
  \<open>filter\<close> and \<open>map\<close> call the callback on the elements from left to right; the first
  exception ends the call.
\<close>

fun Array_filter :: "('a \<Rightarrow> js_error + bool) \<Rightarrow> 'a list \<Rightarrow> js_error + 'a list" where
  "Array_filter p [] = Inr []"
| "Array_filter p (x # xs) =
     (case p x of
        Inl e \<Rightarrow> Inl e
      | Inr b \<Rightarrow>
          (case Array_filter p xs of
             Inl e \<Rightarrow> Inl e
           | Inr ys \<Rightarrow> Inr (if b then x # ys else ys)))"

fun Array_map :: "('a \<Rightarrow> js_error + 'b) \<Rightarrow> 'a list \<Rightarrow> js_error + 'b list" where
  "Array_map f [] = Inr []"
| "Array_map f (x # xs) =
     (case f x of
        Inl e \<Rightarrow> Inl e
      | Inr y \<Rightarrow>
          (case Array_map f xs of
             Inl e \<Rightarrow> Inl e
           | Inr ys \<Rightarrow> Inr (y # ys)))"

subsection \<open>The tags of a job\<close>

text \<open>
  \<open>[job.role, job.level, ...job.languages, ...job.tools]\<close>: spreading \<open>undefined\<close>
  throws a \<open>TypeError\<close>, first for \<open>languages\<close>, then for \<open>tools\<close>.
\<close>

definition job_tags :: "job \<Rightarrow> js_error + jsval list" where
  "job_tags j =
     (case languages j of
        None \<Rightarrow> Inl TypeError
      | Some ls \<Rightarrow>
          (case tools j of
             None \<Rightarrow> Inl TypeError
           | Some ts \<Rightarrow> Inr ([role j, level j] @ map Str ls @ map Str ts)))"

subsection \<open>\<open>createJobCard\<close>\<close>

definition tagHtml :: "jsval \<Rightarrow> string" where
  \<open>tagHtml tag =
     ''\<newline>        <span class="badge tag filter-tag" data-tag="'' @ toString tag @
     ''">'' @ toString tag @ ''</span>\<newline>    ''\<close>

definition cardHtml :: "job \<Rightarrow> string \<Rightarrow> string" where
  \<open>cardHtml j tagsHtml =
     ''\<newline>        <div class="card mb-4 job-card">\<newline>        \<newline>            <div class="card-body">\<newline>                <div class="d-flex align-items-center head mb-3">\<newline>                <img src="''
     @ toString (logo j) @ ''" alt="'' @ toString (company j) @
     '' logo" class="me-3" width="50" height="50">\<newline>                    <h5 class="card-title">''
     @ toString (company j) @ ''</h5>\<newline>                    ''
     @ (if truthy (new j) then ''<span class="badge new mx-2">New!</span>'' else '''')
     @ '' \<newline>                    ''
     @ (if truthy (featured j) then ''<span class="badge featured">Featured</span>'' else '''')
     @ ''\<newline>                </div>\<newline>                <div class="d-flex jobs">\<newline>                <h4 class="heads">''
     @ toString (position j)
     @ ''</h4> \<newline>                <div class="tools">''
     @ tagsHtml
     @ ''</div>\<newline>                </div>\<newline>                <p class="text-muted mute">''
     @ toString (postedAt j) @ '' '' @ [CHR 0xB7] @ '' '' @ toString (contract j)
     @ '' '' @ [CHR 0xB7] @ '' '' @ toString (location j)
     @ ''</p>\<newline>            </div>\<newline>                <div class="bottom">\<newline>                <hr>\<newline>                <div>''
     @ tagsHtml
     @ ''</div>\<newline>                </div>\<newline>        </div>\<newline>    ''\<close>

definition createJobCard :: "job \<Rightarrow> js_error + string" where
  "createJobCard j =
     (case job_tags j of
        Inl e \<Rightarrow> Inl e
      | Inr tags \<Rightarrow> Inr (cardHtml j (concat (map tagHtml tags))))"

subsection \<open>The page state\<close>

record state =
  activeFilters :: "jsval list"
  jobs :: "job list"
  jobListings_innerHTML :: string
  filterBar_display :: string
  filterTags_innerHTML :: string
  console :: "(string \<times> js_error) list"

text \<open>
  How a call of a state-changing function ends: normally, or with an exception that
  nobody caught, in the state the call had reached.
\<close>

datatype outcome = Done state | Uncaught js_error state

fun state_of :: "outcome \<Rightarrow> state" where
  "state_of (Done s) = s"
| "state_of (Uncaught e s) = s"

fun completes :: "outcome \<Rightarrow> bool" where
  "completes (Done s) = True"
| "completes (Uncaught e s) = False"

text \<open>
  The state when the script has been loaded: both variables empty, the document as the
  page's markup (not part of the script) gives it.
\<close>

definition init_state :: "string \<Rightarrow> string \<Rightarrow> string \<Rightarrow> state" where
  "init_state listings display chips =
     \<lparr>activeFilters = [], jobs = [], jobListings_innerHTML = listings,
      filterBar_display = display, filterTags_innerHTML = chips, console = []\<rparr>"

subsection \<open>\<open>renderJobs\<close>\<close>

text \<open>The callback of \<open>jobs.filter\<close>.\<close>

definition job_visible :: "jsval list \<Rightarrow> job \<Rightarrow> js_error + bool" where
  "job_visible af j =
     (if Set_size af = 0 then Inr True
      else (case job_tags j of
              Inl e \<Rightarrow> Inl e
            | Inr tags \<Rightarrow>
                (let jobTags = Set_new tags in Inr (list_all (\<lambda>f. Set_has jobTags f) af))))"

definition filteredJobs :: "jsval list \<Rightarrow> job list \<Rightarrow> js_error + job list" where
  "filteredJobs af js = Array_filter (job_visible af) js"

definition renderJobs :: "state \<Rightarrow> outcome" where
  "renderJobs s =
     (case filteredJobs (activeFilters s) (jobs s) of
        Inl e \<Rightarrow> Uncaught e s
      | Inr fj \<Rightarrow>
          (case Array_map createJobCard fj of
             Inl e \<Rightarrow> Uncaught e s
           | Inr cards \<Rightarrow> Done (s\<lparr>jobListings_innerHTML := concat cards\<rparr>)))"

subsection \<open>\<open>updateFilterBar\<close>\<close>

definition chipHtml :: "jsval \<Rightarrow> string" where
  \<open>chipHtml f =
     ''\<newline>            <span class="badge btn2">\<newline>                ''
     @ toString f @
     ''\<newline>                <button type="button" class="btn-close close btn-close-white" aria-label="Close" data-filter="''
     @ toString f @
     ''"></button> \<newline>            </span>\<newline>        ''\<close>

definition updateFilterBar :: "state \<Rightarrow> state" where
  "updateFilterBar s =
     (if Set_size (activeFilters s) > 0
      then s\<lparr>filterBar_display := ''block'',
             filterTags_innerHTML := concat (map chipHtml (activeFilters s))\<rparr>
      else s\<lparr>filterBar_display := ''none''\<rparr>)"

subsection \<open>The transitions\<close>

definition addFilter :: "jsval \<Rightarrow> state \<Rightarrow> outcome" where
  "addFilter f s =
     renderJobs (updateFilterBar (s\<lparr>activeFilters := Set_add f (activeFilters s)\<rparr>))"

definition removeFilter :: "jsval \<Rightarrow> state \<Rightarrow> outcome" where
  "removeFilter f s =
     renderJobs (updateFilterBar (s\<lparr>activeFilters := Set_delete f (activeFilters s)\<rparr>))"

text \<open>The click listener of \<open>#clear-filters\<close>.\<close>

definition clearFilters_click :: "state \<Rightarrow> outcome" where
  "clearFilters_click s =
     renderJobs (updateFilterBar (s\<lparr>activeFilters := Set_clear (activeFilters s)\<rparr>))"

text \<open>
  The click listener of the document. Of the clicked element it reads the class list and
  the two data attributes; both tests are made, the second one only when the first
  transition has returned.
\<close>

record click_target =
  classList :: "string list"
  dataset_tag :: jsval
  dataset_filter :: jsval

definition document_click :: "click_target \<Rightarrow> state \<Rightarrow> outcome" where
  "document_click t s =
     (case (if ''filter-tag'' \<in> set (classList t) then addFilter (dataset_tag t) s else Done s) of
        Uncaught e s' \<Rightarrow> Uncaught e s'
      | Done s' \<Rightarrow>
          (if ''btn-close'' \<in> set (classList t) then removeFilter (dataset_filter t) s'
           else Done s'))"

subsection \<open>\<open>fetchJobs\<close>\<close>

text \<open>
  What an awaited promise gives: its value, or the error it was rejected with. The
  response of \<open>fetch\<close> has the flag \<open>ok\<close> and the promise of \<open>json()\<close>, whose value is the
  parsed array of jobs.
\<close>

datatype 'a awaited = Rejected js_error | Fulfilled 'a

record response =
  ok :: bool
  json :: "job list awaited"

definition console_error :: "string \<Rightarrow> js_error \<Rightarrow> state \<Rightarrow> state" where
  "console_error msg e s = s\<lparr>console := console s @ [(msg, e)]\<rparr>"

text \<open>The \<open>try\<close> block.\<close>

definition fetchJobs_try :: "response awaited \<Rightarrow> state \<Rightarrow> outcome" where
  "fetchJobs_try fetched s =
     (case fetched of
        Rejected e \<Rightarrow> Uncaught e s
      | Fulfilled r \<Rightarrow>
          (if \<not> ok r then Uncaught (Error ''Failed to load jobs'') s
           else (case json r of
                   Rejected e \<Rightarrow> Uncaught e s
                 | Fulfilled js \<Rightarrow> renderJobs (s\<lparr>jobs := js\<rparr>))))"

text \<open>\<open>try { ... } catch (error) { console.error(...) }\<close>.\<close>

definition fetchJobs :: "response awaited \<Rightarrow> state \<Rightarrow> outcome" where
  "fetchJobs fetched s =
     (case fetchJobs_try fetched s of
        Done s' \<Rightarrow> Done s'
      | Uncaught e s' \<Rightarrow> Done (console_error ''Error fetching jobs:'' e s'))"

subsection \<open>Notions of the specification\<close>

text \<open>
  The derived tag set of a job, in the specification's words: role, level, each
  language and each tool, as a set.
\<close>

definition derived_tags :: "job \<Rightarrow> jsval set" where
  "derived_tags j =
     {role j, level j}
     \<union> (case languages j of None \<Rightarrow> {} | Some ls \<Rightarrow> Str ` set ls)
     \<union> (case tools j of None \<Rightarrow> {} | Some ts \<Rightarrow> Str ` set ts)"

text \<open>A job of the data model has both arrays.\<close>

definition has_arrays :: "job \<Rightarrow> bool" where
  "has_arrays j = (languages j \<noteq> None \<and> tools j \<noteq> None)"

text \<open>
  Both view regions hold what the script writes for the current variables: running
  \<open>updateFilterBar\<close> or \<open>renderJobs\<close> once more changes nothing. Every transition ends
  in such a state.
\<close>

definition rendered :: "state \<Rightarrow> bool" where
  "rendered s = (updateFilterBar s = s \<and> state_of (renderJobs s) = s)"

text \<open>The fetch outcomes that count as failures: rejection, a status that is not ok,
  a body that does not parse.\<close>

definition fetch_failed :: "response awaited \<Rightarrow> bool" where
  "fetch_failed fetched =
     (case fetched of
        Rejected e \<Rightarrow> True
      | Fulfilled r \<Rightarrow>
          (if ok r then (case json r of Rejected e \<Rightarrow> True | Fulfilled js \<Rightarrow> False)
           else True))"

subsection \<open>Reading the markup back\<close>

text \<open>
  Assigning \<open>innerHTML\<close> makes the page parse the markup as a fragment; a click then
  reads \<open>classList\<close> and \<open>dataset\<close> of the element it hits. The functions below follow
  the HTML Standard for the part of that parsing the templates of the script need:
  \<^item> newlines are normalised first: a carriage return, with a line feed that follows
    it, becomes one line feed;
  \<^item> the tokenizer states \<^emph>\<open>data\<close>, \<^emph>\<open>tag open\<close>, \<^emph>\<open>end tag open\<close>, \<^emph>\<open>tag name\<close>,
    the attribute name and attribute value states and \<^emph>\<open>self-closing start tag\<close>, each
    state consuming one character (where the Standard reconsumes a character in another
    state, the step of that state is written out);
  \<^item> names are put in lower case; of two attributes with one name the first stays;
  \<^item> in a container whose content is parsed as the body's (a \<open>div\<close>, say) a start
    tag \<open>div\<close>, \<open>img\<close>, \<open>h5\<close>, \<open>span\<close>, \<open>h4\<close>, \<open>p\<close>, \<open>hr\<close> or \<open>button\<close> adds an element
    with the attributes of the tag, and an end tag \<open>div\<close>, \<open>h5\<close>, \<open>span\<close>, \<open>h4\<close> or
    \<open>button\<close> adds none.

  Everything else is left out, and reading stops there with the result marked
  \<open>Partial\<close>: comments and declarations (\<open><!\<close>, \<open><?\<close>, \<open></\<close> before a character that
  is no letter), every other tag name, a NUL character in a name or a value, and an
  ampersand in an attribute value (character references; in text they add no element).
  The elements read up to that point are elements of the page. Characters are the
  8-bit characters of \<open>string\<close>.
\<close>

fun normalize_from :: "bool \<Rightarrow> string \<Rightarrow> string" where
  "normalize_from after_cr [] = []"
| "normalize_from after_cr (c # cs) =
     (if c = CHR 0x0D then CHR 0x0A # normalize_from True cs
      else if c = CHR 0x0A \<and> after_cr then normalize_from False cs
      else c # normalize_from False cs)"

definition normalize_newlines :: "string \<Rightarrow> string" where
  "normalize_newlines html = normalize_from False html"

text \<open>Tab, line feed, form feed and space; ASCII letters.\<close>

definition is_space :: "char \<Rightarrow> bool" where
  "is_space c = (c = CHR 0x09 \<or> c = CHR 0x0A \<or> c = CHR 0x0C \<or> c = CHR 0x20)"

definition is_upper :: "char \<Rightarrow> bool" where
  "is_upper c = (65 \<le> (of_char c :: nat) \<and> (of_char c :: nat) \<le> 90)"

definition is_alpha :: "char \<Rightarrow> bool" where
  "is_alpha c = (is_upper c \<or> (97 \<le> (of_char c :: nat) \<and> (of_char c :: nat) \<le> 122))"

definition lower :: "char \<Rightarrow> char" where
  "lower c = (if is_upper c then char_of (of_char c + 32 :: nat) else c)"

text \<open>The states of the tokenizer.\<close>

datatype tstate =
  Data | TagOpen | EndTagOpen | TagName | BeforeAttrName | AttrName | AfterAttrName
  | BeforeAttrValue | AttrValueDQ | AttrValueSQ | AttrValueUQ | AfterAttrValueQ | SelfClosing

record element =
  tag_name :: string
  attributes :: "(string \<times> string) list"

datatype extent = Whole | Partial

text \<open>
  The tokenizer: its state, the tag being read (start or end tag, name, attributes with
  the newest first), the elements added so far, and whether it has met something left
  out.
\<close>

record tokenizer =
  mode :: tstate
  is_end :: bool
  tname :: string
  attrs :: "(string \<times> string) list"
  elements :: "element list"
  unmodelled :: bool

definition give_up :: "tokenizer \<Rightarrow> tokenizer" where
  "give_up k = k\<lparr>unmodelled := True\<rparr>"

definition new_tag :: "bool \<Rightarrow> char \<Rightarrow> tokenizer \<Rightarrow> tokenizer" where
  "new_tag e c k = k\<lparr>mode := TagName, is_end := e, tname := [lower c], attrs := []\<rparr>"

definition new_attr :: "char \<Rightarrow> tokenizer \<Rightarrow> tokenizer" where
  "new_attr c k =
     (if c = CHR 0x00 then give_up k
      else k\<lparr>mode := AttrName, attrs := ([lower c], []) # attrs k\<rparr>)"

definition add_name :: "char \<Rightarrow> tokenizer \<Rightarrow> tokenizer" where
  "add_name c k =
     (case attrs k of
        [] \<Rightarrow> k
      | (n, v) # r \<Rightarrow> if c = CHR 0x00 then give_up k else k\<lparr>attrs := (n @ [lower c], v) # r\<rparr>)"

definition add_value :: "char \<Rightarrow> tokenizer \<Rightarrow> tokenizer" where
  "add_value c k =
     (case attrs k of
        [] \<Rightarrow> k
      | (n, v) # r \<Rightarrow>
          if c = CHR ''&'' \<or> c = CHR 0x00 then give_up k else k\<lparr>attrs := (n, v @ [c]) # r\<rparr>)"

text \<open>Of the attributes with one name the first.\<close>

fun first_of_each :: "string list \<Rightarrow> (string \<times> string) list \<Rightarrow> (string \<times> string) list" where
  "first_of_each seen [] = []"
| "first_of_each seen ((n, v) # r) =
     (if n \<in> set seen then first_of_each seen r else (n, v) # first_of_each (n # seen) r)"

definition start_tags :: "string list" where
  "start_tags = [''div'', ''img'', ''h5'', ''span'', ''h4'', ''p'', ''hr'', ''button'']"

definition end_tags :: "string list" where
  "end_tags = [''div'', ''h5'', ''span'', ''h4'', ''button'']"

text \<open>The tag is complete: the tree builder adds its element.\<close>

definition emit_tag :: "tokenizer \<Rightarrow> tokenizer" where
  "emit_tag k =
     (if is_end k then (if tname k \<in> set end_tags then k\<lparr>mode := Data\<rparr> else give_up k)
      else if tname k \<in> set start_tags
      then k\<lparr>mode := Data,
             elements := elements k
               @ [\<lparr>tag_name = tname k, attributes = first_of_each [] (rev (attrs k))\<rparr>]\<rparr>
      else give_up k)"

text \<open>One character in each state.\<close>

fun feed :: "tstate \<Rightarrow> char \<Rightarrow> tokenizer \<Rightarrow> tokenizer" where
  "feed Data c k = (if c = CHR ''<'' then k\<lparr>mode := TagOpen\<rparr> else k)"
| "feed TagOpen c k =
     (if c = CHR ''!'' \<or> c = CHR ''?'' then give_up k
      else if c = CHR ''/'' then k\<lparr>mode := EndTagOpen\<rparr>
      else if is_alpha c then new_tag False c k
      else if c = CHR ''<'' then k
      else k\<lparr>mode := Data\<rparr>)"
| "feed EndTagOpen c k =
     (if is_alpha c then new_tag True c k
      else if c = CHR ''>'' then k\<lparr>mode := Data\<rparr>
      else give_up k)"
| "feed TagName c k =
     (if is_space c then k\<lparr>mode := BeforeAttrName\<rparr>
      else if c = CHR ''/'' then k\<lparr>mode := SelfClosing\<rparr>
      else if c = CHR ''>'' then emit_tag k
      else if c = CHR 0x00 then give_up k
      else k\<lparr>tname := tname k @ [lower c]\<rparr>)"
| "feed BeforeAttrName c k =
     (if is_space c then k
      else if c = CHR ''/'' then k\<lparr>mode := SelfClosing\<rparr>
      else if c = CHR ''>'' then emit_tag k
      else new_attr c k)"
| "feed AttrName c k =
     (if is_space c then k\<lparr>mode := AfterAttrName\<rparr>
      else if c = CHR ''/'' then k\<lparr>mode := SelfClosing\<rparr>
      else if c = CHR ''>'' then emit_tag k
      else if c = CHR ''='' then k\<lparr>mode := BeforeAttrValue\<rparr>
      else add_name c k)"
| "feed AfterAttrName c k =
     (if is_space c then k
      else if c = CHR ''/'' then k\<lparr>mode := SelfClosing\<rparr>
      else if c = CHR ''='' then k\<lparr>mode := BeforeAttrValue\<rparr>
      else if c = CHR ''>'' then emit_tag k
      else new_attr c k)"
| "feed BeforeAttrValue c k =
     (if is_space c then k
      else if c = CHR 0x22 then k\<lparr>mode := AttrValueDQ\<rparr>
      else if c = CHR 0x27 then k\<lparr>mode := AttrValueSQ\<rparr>
      else if c = CHR ''>'' then emit_tag k
      else add_value c (k\<lparr>mode := AttrValueUQ\<rparr>))"
| "feed AttrValueDQ c k =
     (if c = CHR 0x22 then k\<lparr>mode := AfterAttrValueQ\<rparr> else add_value c k)"
| "feed AttrValueSQ c k =
     (if c = CHR 0x27 then k\<lparr>mode := AfterAttrValueQ\<rparr> else add_value c k)"
| "feed AttrValueUQ c k =
     (if is_space c then k\<lparr>mode := BeforeAttrName\<rparr>
      else if c = CHR ''>'' then emit_tag k
      else add_value c k)"
| "feed AfterAttrValueQ c k =
     (if is_space c then k\<lparr>mode := BeforeAttrName\<rparr>
      else if c = CHR ''/'' then k\<lparr>mode := SelfClosing\<rparr>
      else if c = CHR ''>'' then emit_tag k
      else new_attr c k)"
| "feed SelfClosing c k =
     (if c = CHR ''>'' then emit_tag k
      else if is_space c then k\<lparr>mode := BeforeAttrName\<rparr>
      else if c = CHR ''/'' then k
      else new_attr c k)"

definition step :: "tokenizer \<Rightarrow> char \<Rightarrow> tokenizer" where
  "step k c = (if unmodelled k then k else feed (mode k) c k)"

fun tokenize :: "tokenizer \<Rightarrow> string \<Rightarrow> tokenizer" where
  "tokenize k [] = k"
| "tokenize k (c # cs) = tokenize (step k c) cs"

definition start_tokenizer :: tokenizer where
  "start_tokenizer =
     \<lparr>mode = Data, is_end = False, tname = [], attrs = [], elements = [], unmodelled = False\<rparr>"

definition parse_fragment :: "string \<Rightarrow> element list \<times> extent" where
  "parse_fragment html =
     (let k = tokenize start_tokenizer (normalize_newlines html)
      in (elements k, if unmodelled k then Partial else Whole))"

text \<open>
  What a click listener reads of an element: \<open>dataset.tag\<close> is the value of the
  attribute \<open>data-tag\<close> (\<open>undefined\<close> without it), \<open>classList\<close> the words of \<open>class\<close>.
\<close>

definition attribute :: "element \<Rightarrow> string \<Rightarrow> string option" where
  "attribute e name = map_of (attributes e) name"





text \<open>
  Texts that an attribute value (no double quote, ampersand, NUL, carriage return) and
  the text of an element (no \<open><\<close> either) take as they are.
\<close>

definition attr_plain :: "string \<Rightarrow> bool" where
  "attr_plain t = (set t \<inter> {CHR 0x22, CHR ''&'', CHR 0x00, CHR 0x0D} = {})"

definition text_plain :: "string \<Rightarrow> bool" where
  "text_plain t = (attr_plain t \<and> CHR ''<'' \<notin> set t)"

text \<open>The elements the two templates describe.\<close>

definition tag_span :: "string \<Rightarrow> element" where
  "tag_span t =
     \<lparr>tag_name = ''span'',
      attributes = [(''class'', ''badge tag filter-tag''), (''data-tag'', t)]\<rparr>"



subsection \<open>Notions used in the proofs\<close>

text \<open>
  The attributes of the tag being read that are complete in a given state of the
  tokenizer: all of them between attributes, all but the newest while one is being read.
\<close>

fun finished :: "tstate \<Rightarrow> (string \<times> string) list \<Rightarrow> (string \<times> string) list option" where
  "finished AfterAttrValueQ as = Some as"
| "finished BeforeAttrName as = Some as"
| "finished SelfClosing as = Some as"
| "finished AttrName as = (if as = [] then None else Some (tl as))"
| "finished AfterAttrName as = (if as = [] then None else Some (tl as))"
| "finished BeforeAttrValue as = (if as = [] then None else Some (tl as))"
| "finished AttrValueDQ as = (if as = [] then None else Some (tl as))"
| "finished AttrValueSQ as = (if as = [] then None else Some (tl as))"
| "finished AttrValueUQ as = (if as = [] then None else Some (tl as))"
| "finished Data as = None"
| "finished TagOpen as = None"
| "finished EndTagOpen as = None"
| "finished TagName as = None"

text \<open>
  The tokenizer is inside a start tag \<open>tn\<close> whose attribute \<open>dn\<close> is complete with the
  value \<open>p\<close>, after the elements \<open>es\<close>.
\<close>

definition pending :: "string \<Rightarrow> string \<Rightarrow> string \<Rightarrow> element list \<Rightarrow> tokenizer \<Rightarrow> bool" where
  "pending tn dn p es k =
     (\<not> unmodelled k \<and> elements k = es \<and> \<not> is_end k \<and> tname k = tn
      \<and> (case finished (mode k) (attrs k) of
            None \<Rightarrow> False
          | Some as \<Rightarrow> map_of (rev as) dn = Some p))"

text \<open>
  The next element after \<open>es\<close>, if the tokenizer gets to it, is a \<open>tn\<close> whose attribute
  \<open>dn\<close> is \<open>p\<close>.
\<close>

definition reads_as :: "string \<Rightarrow> string \<Rightarrow> string \<Rightarrow> element list \<Rightarrow> tokenizer \<Rightarrow> bool" where
  "reads_as tn dn p es k =
     ((elements k = es \<and> (unmodelled k \<or> pending tn dn p es k))
      \<or> (\<exists>e more. elements k = es @ e # more \<and> tag_name e = tn \<and> attribute e dn = Some p))"

subsection \<open>The scenario of the specification\<close>

definition no_fields :: job where
  "no_fields =
     \<lparr>company = Undefined, logo = Undefined, new = None, featured = None,
      position = Undefined, role = Undefined, level = Undefined, postedAt = Undefined,
      contract = Undefined, location = Undefined, languages = None, tools = None\<rparr>"

definition frontend_job :: job where
  "frontend_job =
     no_fields\<lparr>role := Str ''Frontend'', level := Str ''Junior'',
               languages := Some [''HTML'', ''CSS''], tools := Some []\<rparr>"

definition backend_job :: job where
  "backend_job =
     no_fields\<lparr>role := Str ''Backend'', level := Str ''Senior'',
               languages := Some [''Python''], tools := Some [''Django'']\<rparr>"

text \<open>A job whose \<open>languages\<close> field is missing.\<close>

definition no_languages_job :: job where
  "no_languages_job =
     no_fields\<lparr>role := Str ''Frontend'', level := Str ''Junior'', tools := Some []\<rparr>"

text \<open>The page after the two jobs have been loaded and the tag \<open>Frontend\<close> clicked.\<close>

definition frontend_selected :: state where
  "frontend_selected =
     \<lparr>activeFilters = [Str ''Frontend''],
      jobs = [frontend_job, backend_job],
      jobListings_innerHTML =
        cardHtml frontend_job
          (concat (map tagHtml [Str ''Frontend'', Str ''Junior'', Str ''HTML'', Str ''CSS''])),
      filterBar_display = ''block'',
      filterTags_innerHTML = chipHtml (Str ''Frontend''),
      console = []\<rparr>"

text \<open>The page after a load whose only job has no \<open>languages\<close> array.\<close>

definition broken_page :: state where
  "broken_page =
     \<lparr>activeFilters = [], jobs = [no_languages_job], jobListings_innerHTML = [],
      filterBar_display = [], filterTags_innerHTML = [],
      console = [(''Error fetching jobs:'', TypeError)]\<rparr>"



section \<open>Properties\<close>

subsection \<open>Helper facts\<close>

lemma Set_has_Set_add: "Set_has (Set_add x s) y = (y = x \<or> Set_has s y)"
  by (auto simp: Set_add_def Set_has_def)

lemma Set_has_foldl:
  "Set_has (foldl (\<lambda>s x. Set_add x s) acc xs) y = (Set_has acc y \<or> y \<in> set xs)"
  by (induction xs arbitrary: acc) (auto simp: Set_has_Set_add)

lemma Set_has_Set_new: "Set_has (Set_new xs) y = (y \<in> set xs)"
  by (simp add: Set_new_def Set_has_foldl) (simp add: Set_has_def)

lemma job_tags_arrays:
  "has_arrays j \<Longrightarrow> \<exists>tags. job_tags j = Inr tags \<and> set tags = derived_tags j"
  by (auto simp: has_arrays_def job_tags_def derived_tags_def)

lemma job_visible_arrays:
  "has_arrays j \<Longrightarrow> job_visible af j = Inr (set af \<subseteq> derived_tags j)"
proof -
  assume "has_arrays j"
  then obtain tags where t: "job_tags j = Inr tags" "set tags = derived_tags j"
    using job_tags_arrays by blast
  show ?thesis
  proof (cases "af = []")
    case True
    then show ?thesis by (simp add: job_visible_def Set_size_def)
  next
    case False
    then show ?thesis
      using t by (auto simp: job_visible_def Set_size_def Set_has_Set_new list_all_iff)
  qed
qed

lemma Array_filter_total:
  "\<forall>x\<in>set xs. p x = Inr (q x) \<Longrightarrow> Array_filter p xs = Inr (filter q xs)"
  by (induction xs) auto

lemma job_visible_no_filters: "job_visible [] j = Inr True"
  by (simp add: job_visible_def Set_size_def)

lemma filteredJobs_no_filters: "filteredJobs [] L = Inr L"
  unfolding filteredJobs_def
  by (rule Array_filter_total [where q = "\<lambda>j. True", simplified])
     (simp add: job_visible_no_filters)

lemma job_tags_missing: "\<not> has_arrays j \<Longrightarrow> job_tags j = Inl TypeError"
  by (auto simp: has_arrays_def job_tags_def split: option.splits)

subsection \<open>What the renderers leave alone, and rendering twice\<close>

lemma activeFilters_updateFilterBar [simp]:
  "activeFilters (updateFilterBar s) = activeFilters s"
  by (simp add: updateFilterBar_def)

lemma jobs_updateFilterBar [simp]: "jobs (updateFilterBar s) = jobs s"
  by (simp add: updateFilterBar_def)

lemma renderJobs_result:
  "(\<exists>e. renderJobs s = Uncaught e s)
   \<or> (\<exists>html. renderJobs s = Done (s\<lparr>jobListings_innerHTML := html\<rparr>))"
  by (auto simp: renderJobs_def split: sum.splits)

lemma renderJobs_cases:
  obtains (thrown) e where "renderJobs s = Uncaught e s"
  | (written) html where "renderJobs s = Done (s\<lparr>jobListings_innerHTML := html\<rparr>)"
  using renderJobs_result [of s] by blast

lemma activeFilters_renderJobs [simp]:
  "activeFilters (state_of (renderJobs s)) = activeFilters s"
  by (cases s rule: renderJobs_cases) auto

lemma jobs_renderJobs [simp]: "jobs (state_of (renderJobs s)) = jobs s"
  by (cases s rule: renderJobs_cases) auto

lemma filterBar_display_renderJobs [simp]:
  "filterBar_display (state_of (renderJobs s)) = filterBar_display s"
  by (cases s rule: renderJobs_cases) auto

lemma filterTags_renderJobs [simp]:
  "filterTags_innerHTML (state_of (renderJobs s)) = filterTags_innerHTML s"
  by (cases s rule: renderJobs_cases) auto

lemma updateFilterBar_idem: "updateFilterBar (updateFilterBar s) = updateFilterBar s"
  by (simp add: updateFilterBar_def)

lemma updateFilterBar_listings:
  "updateFilterBar (s\<lparr>jobListings_innerHTML := html\<rparr>)
     = (updateFilterBar s)\<lparr>jobListings_innerHTML := html\<rparr>"
  by (simp add: updateFilterBar_def)

lemma updateFilterBar_renderJobs:
  "updateFilterBar s = s \<Longrightarrow> updateFilterBar (state_of (renderJobs s)) = state_of (renderJobs s)"
  by (cases s rule: renderJobs_cases) (simp_all add: updateFilterBar_listings)

lemma renderJobs_idem:
  "state_of (renderJobs (state_of (renderJobs s))) = state_of (renderJobs s)"
  by (auto simp: renderJobs_def split: sum.splits)

lemma rendered_after:
  "rendered (state_of (renderJobs (updateFilterBar s)))"
  unfolding rendered_def
  by (simp add: updateFilterBar_renderJobs updateFilterBar_idem renderJobs_idem)

lemma rendered_after_addFilter: "rendered (state_of (addFilter f s))"
  by (simp add: addFilter_def rendered_after)

lemma rendered_after_removeFilter: "rendered (state_of (removeFilter f s))"
  by (simp add: removeFilter_def rendered_after)

lemma rendered_after_clearFilters_click: "rendered (state_of (clearFilters_click s))"
  by (simp add: clearFilters_click_def rendered_after)

lemma Array_map_total:
  "\<forall>x\<in>set xs. \<exists>y. f x = Inr y \<Longrightarrow>
   \<exists>ys. Array_map f xs = Inr ys \<and> list_all2 (\<lambda>x y. f x = Inr y) xs ys"
  by (induction xs) auto

lemma createJobCard_arrays: "has_arrays j \<Longrightarrow> \<exists>html. createJobCard j = Inr html"
  using job_tags_arrays [of j] by (auto simp: createJobCard_def)

lemma renderJobs_again: "renderJobs (state_of (renderJobs s)) = renderJobs s"
  by (auto simp: renderJobs_def split: sum.splits)

lemma transition_again:
  "renderJobs (updateFilterBar (state_of (renderJobs (updateFilterBar s))))
     = renderJobs (updateFilterBar s)"
  by (simp add: updateFilterBar_renderJobs updateFilterBar_idem renderJobs_again)

lemma Set_add_present: "f \<in> set A \<Longrightarrow> Set_add f A = A"
  by (simp add: Set_add_def Set_has_def)

lemma Set_delete_absent: "f \<notin> set A \<Longrightarrow> Set_delete f A = A"
  by (auto simp: Set_delete_def filter_id_conv)

lemma set_Set_add: "set (Set_add f A) = insert f (set A)"
  by (auto simp: Set_add_def Set_has_def)

lemma set_Set_delete: "set (Set_delete f A) = set A - {f}"
  by (auto simp: Set_delete_def)


lemma addFilter_present:
  "f \<in> set (activeFilters s) \<Longrightarrow> addFilter f s = renderJobs (updateFilterBar s)"
  by (simp add: addFilter_def Set_add_present)

lemma removeFilter_absent:
  "f \<notin> set (activeFilters s) \<Longrightarrow> removeFilter f s = renderJobs (updateFilterBar s)"
  by (simp add: removeFilter_def Set_delete_absent)

lemma Array_filter_throws:
  "\<forall>x\<in>set xs. p x = Inl e \<or> (\<exists>b. p x = Inr b) \<Longrightarrow> \<exists>x\<in>set xs. p x = Inl e \<Longrightarrow>
   Array_filter p xs = Inl e"
  by (induction xs) (auto split: sum.splits; blast)+

lemma Array_map_throws:
  "\<forall>x\<in>set xs. f x = Inl e \<or> (\<exists>y. f x = Inr y) \<Longrightarrow> \<exists>x\<in>set xs. f x = Inl e \<Longrightarrow>
   Array_map f xs = Inl e"
  by (induction xs) (auto split: sum.splits; blast)+

lemma job_tags_either: "job_tags j = Inl TypeError \<or> (\<exists>tags. job_tags j = Inr tags)"
  by (auto simp: job_tags_def split: option.splits)

lemma job_visible_either:
  "job_visible F j = Inl TypeError \<or> (\<exists>b. job_visible F j = Inr b)"
  using job_tags_either [of j] by (auto simp: job_visible_def Let_def)

lemma createJobCard_either:
  "createJobCard j = Inl TypeError \<or> (\<exists>html. createJobCard j = Inr html)"
  using job_tags_either [of j] by (auto simp: createJobCard_def)

lemma filteredJobs_throws:
  assumes "F \<noteq> []" and "\<exists>j\<in>set L. \<not> has_arrays j"
  shows "filteredJobs F L = Inl TypeError"
proof -
  from assms obtain j where "j \<in> set L" "job_visible F j = Inl TypeError"
    by (auto simp: job_visible_def Set_size_def job_tags_missing)
  then show ?thesis
    unfolding filteredJobs_def
    by (intro Array_filter_throws) (auto simp: job_visible_either)
qed

lemma cards_throw:
  assumes "\<exists>j\<in>set L. \<not> has_arrays j"
  shows "Array_map createJobCard L = Inl TypeError"
proof -
  from assms obtain j where "j \<in> set L" "createJobCard j = Inl TypeError"
    by (auto simp: createJobCard_def job_tags_missing)
  then show ?thesis
    by (intro Array_map_throws) (auto simp: createJobCard_either)
qed

lemma clear_throws:
  assumes "\<exists>j\<in>set (jobs s). \<not> has_arrays j"
  shows "clearFilters_click s
           = Uncaught TypeError (s\<lparr>activeFilters := [], filterBar_display := ''none''\<rparr>)"
  using cards_throw [OF assms]
  by (simp add: clearFilters_click_def Set_clear_def updateFilterBar_def Set_size_def
      renderJobs_def filteredJobs_no_filters)

subsection \<open>The visible jobs\<close>

text \<open>
  The statement does not hold for every job list: the job without \<open>languages\<close> has
  \<open>Frontend\<close> in its derived tag set, and the filter throws.
\<close>

theorem C1_missing_array_counterexample:
  "Str ''Frontend'' \<in> derived_tags no_languages_job
   \<and> filteredJobs [Str ''Frontend''] [no_languages_job] = Inl TypeError"
  by (simp add: derived_tags_def no_languages_job_def no_fields_def filteredJobs_def
      job_visible_def Set_size_def job_tags_def)

text \<open>
  C1, as the script has it. For a list of jobs that all have their \<open>languages\<close> and
  \<open>tools\<close> arrays and any active filters, the jobs that \<open>renderJobs\<close> keeps are exactly
  the jobs of the list whose derived tag set contains every active filter, in the order
  of the list. With no active filter that is the whole list, whatever the jobs are. With
  an active filter and a job that lacks an array the filter throws a \<open>TypeError\<close>.
\<close>

theorem C1_visible_jobs:
  "((\<forall>j\<in>set L. has_arrays j) \<longrightarrow>
      filteredJobs F L = Inr (filter (\<lambda>j. set F \<subseteq> derived_tags j) L))
   \<and> filteredJobs [] L = Inr L
   \<and> (F \<noteq> [] \<and> (\<exists>j\<in>set L. \<not> has_arrays j) \<longrightarrow> filteredJobs F L = Inl TypeError)"
proof (intro conjI impI)
  assume "\<forall>j\<in>set L. has_arrays j"
  then have "\<forall>j\<in>set L. job_visible F j = Inr (set F \<subseteq> derived_tags j)"
    by (simp add: job_visible_arrays)
  then show "filteredJobs F L = Inr (filter (\<lambda>j. set F \<subseteq> derived_tags j) L)"
    unfolding filteredJobs_def by (rule Array_filter_total)
next
  show "filteredJobs [] L = Inr L"
    by (rule filteredJobs_no_filters)
next
  assume "F \<noteq> [] \<and> (\<exists>j\<in>set L. \<not> has_arrays j)"
  then show "filteredJobs F L = Inl TypeError"
    by (simp add: filteredJobs_throws)
qed

theorem C1_visible_jobs_witness:
  "has_arrays frontend_job \<and> has_arrays backend_job
   \<and> filteredJobs [Str ''Frontend''] [frontend_job, backend_job] = Inr [frontend_job]
   \<and> [Str ''Frontend''] \<noteq> [] \<and> \<not> has_arrays no_languages_job
   \<and> filteredJobs [Str ''Frontend''] [frontend_job, no_languages_job] = Inl TypeError"
  using C1_visible_jobs [of "[frontend_job, backend_job]" "[Str ''Frontend'']"]
        C1_visible_jobs [of "[frontend_job, no_languages_job]" "[Str ''Frontend'']"]
  by (simp add: has_arrays_def derived_tags_def frontend_job_def backend_job_def
      no_languages_job_def no_fields_def)

text \<open>
  C6. With no active filter the visible jobs are the job list itself, whatever the
  jobs are.
\<close>

theorem C6_no_filters_identity: "filteredJobs [] L = Inr L"
  by (rule filteredJobs_no_filters)

subsection \<open>Missing fields\<close>

text \<open>
  A job without its \<open>languages\<close> array: \<open>createJobCard\<close> throws, the callback of
  \<open>jobs.filter\<close> throws as soon as a filter is active, and \<open>renderJobs\<close> throws even
  with no filter, leaving the page as it was.
\<close>

theorem C2_missing_array_counterexample:
  "createJobCard no_languages_job = Inl TypeError
   \<and> filteredJobs [Str ''Frontend''] [no_languages_job] = Inl TypeError
   \<and> renderJobs (init_state [] [] [] \<lparr>jobs := [no_languages_job]\<rparr>)
       = Uncaught TypeError (init_state [] [] [] \<lparr>jobs := [no_languages_job]\<rparr>)"
  by (simp add: createJobCard_def job_tags_def no_languages_job_def no_fields_def
      filteredJobs_def job_visible_def Set_size_def renderJobs_def init_state_def)

text \<open>
  C2, as the script has it. The two arrays decide. A job that has both, whatever
  else is missing, gets its card and its verdict from the filter without an exception;
  a missing \<open>role\<close> or \<open>level\<close> stays in the tag list as \<open>undefined\<close>. A job that lacks one
  of the arrays makes \<open>createJobCard\<close> throw a \<open>TypeError\<close>, and the filter callback too
  when a filter is active.
\<close>

theorem C2_arrays_decide:
  "(languages j = Some ls \<and> tools j = Some ts \<longrightarrow>
      createJobCard j
        = Inr (cardHtml j (concat (map tagHtml ([role j, level j] @ map Str ls @ map Str ts))))
      \<and> job_visible F j = Inr (set F \<subseteq> {role j, level j} \<union> Str ` set ls \<union> Str ` set ts))
   \<and> (languages j = None \<or> tools j = None \<longrightarrow>
        createJobCard j = Inl TypeError
        \<and> (F \<noteq> [] \<longrightarrow> job_visible F j = Inl TypeError))"
proof (intro conjI impI)
  assume h: "languages j = Some ls \<and> tools j = Some ts"
  then show "createJobCard j
      = Inr (cardHtml j (concat (map tagHtml ([role j, level j] @ map Str ls @ map Str ts))))"
    by (simp add: createJobCard_def job_tags_def)
  from h have "has_arrays j" and "derived_tags j = {role j, level j} \<union> Str ` set ls \<union> Str ` set ts"
    by (simp_all add: has_arrays_def derived_tags_def)
  then show "job_visible F j = Inr (set F \<subseteq> {role j, level j} \<union> Str ` set ls \<union> Str ` set ts)"
    using job_visible_arrays [of j F] by simp
next
  assume "languages j = None \<or> tools j = None"
  then have "\<not> has_arrays j" by (auto simp: has_arrays_def)
  then show "createJobCard j = Inl TypeError"
    by (simp add: createJobCard_def job_tags_missing)
next
  assume "languages j = None \<or> tools j = None" and "F \<noteq> []"
  moreover from this have "\<not> has_arrays j" by (auto simp: has_arrays_def)
  ultimately show "job_visible F j = Inl TypeError"
    by (simp add: job_visible_def Set_size_def job_tags_missing)
qed

theorem C2_arrays_decide_witness:
  "languages (no_fields\<lparr>languages := Some [], tools := Some []\<rparr>) = Some []
   \<and> tools (no_fields\<lparr>languages := Some [], tools := Some []\<rparr>) = Some []
   \<and> createJobCard (no_fields\<lparr>languages := Some [], tools := Some []\<rparr>)
       = Inr (cardHtml (no_fields\<lparr>languages := Some [], tools := Some []\<rparr>)
                (tagHtml Undefined @ tagHtml Undefined))
   \<and> job_visible [Str ''CSS''] (no_fields\<lparr>languages := Some [], tools := Some []\<rparr>) = Inr False
   \<and> languages no_languages_job = None
   \<and> createJobCard no_languages_job = Inl TypeError
   \<and> job_visible [Str ''CSS''] no_languages_job = Inl TypeError"
  using C2_arrays_decide [of "no_fields\<lparr>languages := Some [], tools := Some []\<rparr>" "[]" "[]" "[Str ''CSS'']"]
        C2_arrays_decide [of no_languages_job "[]" "[]" "[Str ''CSS'']"]
  by (simp add: no_languages_job_def no_fields_def)

subsection \<open>Loading the jobs\<close>

text \<open>
  C3. When the fetch is rejected, or answers with a status that is not ok, or its body
  does not parse, \<open>fetchJobs\<close> returns normally, has written one entry to the console
  and has left the job list (empty when the page starts) and the job-list region as they
  were.
\<close>

theorem C3_fetch_failure:
  assumes "fetch_failed fetched"
  shows "\<exists>e. fetchJobs fetched s = Done (console_error ''Error fetching jobs:'' e s)
           \<and> completes (fetchJobs fetched s)
           \<and> jobs (state_of (fetchJobs fetched s)) = jobs s
           \<and> jobListings_innerHTML (state_of (fetchJobs fetched s)) = jobListings_innerHTML s
           \<and> console (state_of (fetchJobs fetched s)) = console s @ [(''Error fetching jobs:'', e)]"
proof (cases fetched)
  case (Rejected e)
  then show ?thesis
    by (simp add: fetchJobs_def fetchJobs_try_def console_error_def)
next
  case (Fulfilled r)
  show ?thesis
  proof (cases "ok r")
    case False
    with Fulfilled show ?thesis
      by (simp add: fetchJobs_def fetchJobs_try_def console_error_def)
  next
    case True
    with Fulfilled assms obtain e where "json r = Rejected e"
      by (auto simp: fetch_failed_def split: awaited.splits)
    with Fulfilled True show ?thesis
      by (simp add: fetchJobs_def fetchJobs_try_def console_error_def)
  qed
qed

theorem C3_fetch_failure_witness:
  "fetch_failed (Fulfilled \<lparr>ok = False, json = Fulfilled []\<rparr>)
   \<and> fetchJobs (Fulfilled \<lparr>ok = False, json = Fulfilled []\<rparr>) (init_state [] [] [])
       = Done (console_error ''Error fetching jobs:'' (Error ''Failed to load jobs'')
                 (init_state [] [] []))
   \<and> jobs (state_of (fetchJobs (Fulfilled \<lparr>ok = False, json = Fulfilled []\<rparr>)
                        (init_state [] [] []))) = []"
  using C3_fetch_failure [of "Fulfilled \<lparr>ok = False, json = Fulfilled []\<rparr>" "init_state [] [] []"]
  by (simp add: fetch_failed_def fetchJobs_def fetchJobs_try_def init_state_def console_error_def)

subsection \<open>The transitions\<close>

text \<open>
  Not every job is shown in every page state: after a load whose only job has no
  \<open>languages\<close> array the click on \<open>#clear-filters\<close> ends in a \<open>TypeError\<close> and the
  job-list region shows no job.
\<close>

theorem C4_missing_array_counterexample:
  "fetchJobs (Fulfilled \<lparr>ok = True, json = Fulfilled [no_languages_job]\<rparr>) (init_state [] [] [])
     = Done broken_page
   \<and> clearFilters_click broken_page
       = Uncaught TypeError (broken_page\<lparr>filterBar_display := ''none''\<rparr>)
   \<and> jobListings_innerHTML (state_of (clearFilters_click broken_page)) = []"
  by (simp add: fetchJobs_def fetchJobs_try_def init_state_def broken_page_def renderJobs_def
      filteredJobs_def job_visible_def Set_size_def createJobCard_def job_tags_def
      no_languages_job_def no_fields_def console_error_def clearFilters_click_def
      Set_clear_def updateFilterBar_def)

text \<open>
  C4, as the script has it. Whatever the active filters were, after the click on
  \<open>#clear-filters\<close> there is none and the filter bar is hidden. When all jobs of the list
  have their \<open>languages\<close> and \<open>tools\<close> arrays the job-list region then holds the cards of
  all jobs of the list, one for each, in the order of the list; when one lacks an array
  the click ends in a \<open>TypeError\<close> and the region stays as it was.
\<close>

theorem C4_clear_all:
  "activeFilters (state_of (clearFilters_click s)) = []
   \<and> filterBar_display (state_of (clearFilters_click s)) = ''none''
   \<and> ((\<forall>j\<in>set (jobs s). has_arrays j) \<longrightarrow>
        (\<exists>cards. clearFilters_click s =
                    Done (s\<lparr>activeFilters := [], filterBar_display := ''none'',
                            jobListings_innerHTML := concat cards\<rparr>)
                \<and> list_all2 (\<lambda>j card. createJobCard j = Inr card) (jobs s) cards))
   \<and> ((\<exists>j\<in>set (jobs s). \<not> has_arrays j) \<longrightarrow>
        clearFilters_click s
          = Uncaught TypeError (s\<lparr>activeFilters := [], filterBar_display := ''none''\<rparr>))"
proof (intro conjI impI)
  show "activeFilters (state_of (clearFilters_click s)) = []"
    by (simp add: clearFilters_click_def Set_clear_def)
  show "filterBar_display (state_of (clearFilters_click s)) = ''none''"
    by (simp add: clearFilters_click_def) (simp add: updateFilterBar_def Set_clear_def Set_size_def)
next
  assume "\<forall>j\<in>set (jobs s). has_arrays j"
  then have "\<forall>j\<in>set (jobs s). \<exists>html. createJobCard j = Inr html"
    by (simp add: createJobCard_arrays)
  then obtain cards where c: "Array_map createJobCard (jobs s) = Inr cards"
      "list_all2 (\<lambda>j card. createJobCard j = Inr card) (jobs s) cards"
    using Array_map_total by blast
  have "clearFilters_click s =
          Done (s\<lparr>activeFilters := [], filterBar_display := ''none'',
                  jobListings_innerHTML := concat cards\<rparr>)"
    using c(1)
    by (simp add: clearFilters_click_def Set_clear_def updateFilterBar_def Set_size_def
        renderJobs_def filteredJobs_no_filters)
  with c(2) show "\<exists>cards. clearFilters_click s =
                    Done (s\<lparr>activeFilters := [], filterBar_display := ''none'',
                            jobListings_innerHTML := concat cards\<rparr>)
                \<and> list_all2 (\<lambda>j card. createJobCard j = Inr card) (jobs s) cards"
    by blast
next
  assume "\<exists>j\<in>set (jobs s). \<not> has_arrays j"
  then show "clearFilters_click s
          = Uncaught TypeError (s\<lparr>activeFilters := [], filterBar_display := ''none''\<rparr>)"
    by (rule clear_throws)
qed

theorem C4_clear_all_witness:
  "jobs frontend_selected = [frontend_job, backend_job]
   \<and> has_arrays frontend_job \<and> has_arrays backend_job
   \<and> (\<exists>cards. clearFilters_click frontend_selected =
                    Done (frontend_selected\<lparr>activeFilters := [], filterBar_display := ''none'',
                            jobListings_innerHTML := concat cards\<rparr>)
                \<and> list_all2 (\<lambda>j card. createJobCard j = Inr card) (jobs frontend_selected) cards)
   \<and> jobs broken_page = [no_languages_job] \<and> \<not> has_arrays no_languages_job
   \<and> clearFilters_click broken_page
       = Uncaught TypeError (broken_page\<lparr>activeFilters := [], filterBar_display := ''none''\<rparr>)"
  using C4_clear_all [of frontend_selected] C4_clear_all [of broken_page]
  by (simp add: frontend_selected_def broken_page_def has_arrays_def frontend_job_def
      backend_job_def no_languages_job_def no_fields_def)

text \<open>
  C7. Adding a tag that is already an active filter leaves the active filters as they
  are, and when both regions hold what the script last rendered the whole page state,
  the two regions included, is as before. Adding the same tag twice in a row ends as
  adding it once.
\<close>

theorem C7_add_present_tag:
  "(f \<in> set (activeFilters s) \<longrightarrow>
      activeFilters (state_of (addFilter f s)) = activeFilters s
      \<and> (rendered s \<longrightarrow> state_of (addFilter f s) = s \<and> addFilter f s = renderJobs s))
   \<and> addFilter f (state_of (addFilter f s)) = addFilter f s"
proof (intro conjI impI)
  assume f: "f \<in> set (activeFilters s)"
  then show "activeFilters (state_of (addFilter f s)) = activeFilters s"
    by (simp add: addFilter_present)
  assume r: "rendered s"
  with f show "state_of (addFilter f s) = s"
    by (simp add: addFilter_present rendered_def)
  from f r show "addFilter f s = renderJobs s"
    by (simp add: addFilter_present rendered_def)
next
  have "f \<in> set (activeFilters (state_of (addFilter f s)))"
    by (simp add: addFilter_def set_Set_add)
  then have "addFilter f (state_of (addFilter f s))
               = renderJobs (updateFilterBar (state_of (addFilter f s)))"
    by (rule addFilter_present)
  then show "addFilter f (state_of (addFilter f s)) = addFilter f s"
    by (simp add: addFilter_def transition_again)
qed

theorem C7_add_present_tag_witness:
  "Str ''Frontend'' \<in> set (activeFilters frontend_selected)
   \<and> rendered frontend_selected
   \<and> state_of (addFilter (Str ''Frontend'') frontend_selected) = frontend_selected"
  using C7_add_present_tag [of "Str ''Frontend''" frontend_selected]
  by (simp add: frontend_selected_def rendered_def updateFilterBar_def Set_size_def
      renderJobs_def filteredJobs_def job_visible_def job_tags_def Set_new_def Set_add_def
      Set_has_def createJobCard_def frontend_job_def backend_job_def no_fields_def)

text \<open>
  C8. Removing a tag that is not an active filter leaves the active filters as they
  are, and when both regions hold what the script last rendered the whole page state,
  the two regions included, is as before. Removing the same tag twice in a row ends as
  removing it once.
\<close>

theorem C8_remove_absent_tag:
  "(f \<notin> set (activeFilters s) \<longrightarrow>
      activeFilters (state_of (removeFilter f s)) = activeFilters s
      \<and> (rendered s \<longrightarrow> state_of (removeFilter f s) = s \<and> removeFilter f s = renderJobs s))
   \<and> removeFilter f (state_of (removeFilter f s)) = removeFilter f s"
proof (intro conjI impI)
  assume f: "f \<notin> set (activeFilters s)"
  then show "activeFilters (state_of (removeFilter f s)) = activeFilters s"
    by (simp add: removeFilter_absent)
  assume r: "rendered s"
  with f show "state_of (removeFilter f s) = s"
    by (simp add: removeFilter_absent rendered_def)
  from f r show "removeFilter f s = renderJobs s"
    by (simp add: removeFilter_absent rendered_def)
next
  have "f \<notin> set (activeFilters (state_of (removeFilter f s)))"
    by (simp add: removeFilter_def set_Set_delete)
  then have "removeFilter f (state_of (removeFilter f s))
               = renderJobs (updateFilterBar (state_of (removeFilter f s)))"
    by (rule removeFilter_absent)
  then show "removeFilter f (state_of (removeFilter f s)) = removeFilter f s"
    by (simp add: removeFilter_def transition_again)
qed

theorem C8_remove_absent_tag_witness:
  "Str ''Senior'' \<notin> set (activeFilters frontend_selected)
   \<and> rendered frontend_selected
   \<and> state_of (removeFilter (Str ''Senior'') frontend_selected) = frontend_selected"
  using C8_remove_absent_tag [of "Str ''Senior''" frontend_selected]
  by (simp add: frontend_selected_def rendered_def updateFilterBar_def Set_size_def
      renderJobs_def filteredJobs_def job_visible_def job_tags_def Set_new_def Set_add_def
      Set_has_def createJobCard_def frontend_job_def backend_job_def no_fields_def)

subsection \<open>Who writes the two variables\<close>

text \<open>
  C9. \<open>renderJobs\<close> and \<open>updateFilterBar\<close> change neither the job list nor the
  active filters (\<open>createJobCard\<close> only returns markup); the transitions and the click
  listeners leave the job list as it is, and \<open>fetchJobs\<close> leaves the active filters as
  they are.
\<close>

theorem C9_frame:
  "jobs (state_of (renderJobs s)) = jobs s
   \<and> activeFilters (state_of (renderJobs s)) = activeFilters s
   \<and> jobs (updateFilterBar s) = jobs s
   \<and> activeFilters (updateFilterBar s) = activeFilters s
   \<and> jobs (state_of (addFilter f s)) = jobs s
   \<and> jobs (state_of (removeFilter f s)) = jobs s
   \<and> jobs (state_of (clearFilters_click s)) = jobs s
   \<and> jobs (state_of (document_click t s)) = jobs s
   \<and> activeFilters (state_of (fetchJobs fetched s)) = activeFilters s"
proof -
  have doc: "jobs (state_of (document_click t s)) = jobs s"
    by (cases "addFilter (dataset_tag t) s")
       (auto simp: document_click_def addFilter_def removeFilter_def
          dest: arg_cong [where f = "\<lambda>r. jobs (state_of r)"])
  have fetch: "activeFilters (state_of (fetchJobs fetched s)) = activeFilters s"
  proof (cases "fetchJobs_try fetched s")
    case (Done s')
    then have "activeFilters s' = activeFilters s"
      by (auto simp: fetchJobs_try_def split: awaited.splits if_splits
          dest: arg_cong [where f = "\<lambda>r. activeFilters (state_of r)"])
    with Done show ?thesis by (simp add: fetchJobs_def)
  next
    case (Uncaught e s')
    then have "activeFilters s' = activeFilters s"
      by (auto simp: fetchJobs_try_def split: awaited.splits if_splits
          dest: arg_cong [where f = "\<lambda>r. activeFilters (state_of r)"])
    with Uncaught show ?thesis by (simp add: fetchJobs_def console_error_def)
  qed
  show ?thesis
    using doc fetch
    by (simp add: addFilter_def removeFilter_def clearFilters_click_def)
qed

subsection \<open>The tokenizer on the two templates\<close>

lemmas tok_defs = step_def is_space_def is_alpha_def is_upper_def lower_def new_tag_def
  new_attr_def add_name_def add_value_def emit_tag_def start_tags_def end_tags_def give_up_def

lemma tokenize_append: "tokenize k (xs @ ys) = tokenize (tokenize k xs) ys"
  by (induction xs arbitrary: k) simp_all

lemma normalize_plain:
  "CHR 0x0D \<notin> set xs \<Longrightarrow> normalize_from False (xs @ ys) = xs @ normalize_from False ys"
  by (induction xs) auto

lemma normalize_id: "CHR 0x0D \<notin> set xs \<Longrightarrow> normalize_newlines xs = xs"
  using normalize_plain [of xs "[]"] by (simp add: normalize_newlines_def)

lemma value_dq:
  "attr_plain t \<Longrightarrow>
   tokenize \<lparr>mode = AttrValueDQ, is_end = e, tname = tn, attrs = (n, v) # r,
             elements = es, unmodelled = False\<rparr> t
     = \<lparr>mode = AttrValueDQ, is_end = e, tname = tn, attrs = (n, v @ t) # r,
        elements = es, unmodelled = False\<rparr>"
  by (induction t arbitrary: v) (auto simp: attr_plain_def step_def add_value_def)

lemma text_data:
  "CHR ''<'' \<notin> set t \<Longrightarrow>
   tokenize \<lparr>mode = Data, is_end = e, tname = tn, attrs = as,
             elements = es, unmodelled = False\<rparr> t
     = \<lparr>mode = Data, is_end = e, tname = tn, attrs = as,
        elements = es, unmodelled = False\<rparr>"
  by (induction t) (auto simp: step_def)





lemma plain_no_cr: "attr_plain t \<Longrightarrow> CHR 0x0D \<notin> set t"
  by (auto simp: attr_plain_def)

lemma tokenize_tag_start:
  assumes "attr_plain t"
  shows \<open>tokenize \<lparr>mode = Data, is_end = e, tname = tn, attrs = as,
             elements = es, unmodelled = False\<rparr>
            (''\<newline>        <span class="badge tag filter-tag" data-tag="'' @ t @ ''">'')
          = \<lparr>mode = Data, is_end = False, tname = ''span'',
             attrs = [(''data-tag'', t), (''class'', ''badge tag filter-tag'')],
             elements = es @ [tag_span t], unmodelled = False\<rparr>\<close>
proof -
  have 1: \<open>tokenize \<lparr>mode = Data, is_end = e, tname = tn, attrs = as,
             elements = es, unmodelled = False\<rparr>
            (''\<newline>        <span class="badge tag filter-tag" data-tag="'')
          = \<lparr>mode = AttrValueDQ, is_end = False, tname = ''span'',
             attrs = [(''data-tag'', []), (''class'', ''badge tag filter-tag'')],
             elements = es, unmodelled = False\<rparr>\<close>
    by (simp add: tok_defs)
  have 2: \<open>tokenize \<lparr>mode = AttrValueDQ, is_end = False, tname = ''span'',
             attrs = [(''data-tag'', t), (''class'', ''badge tag filter-tag'')],
             elements = es, unmodelled = False\<rparr> ''">''
          = \<lparr>mode = Data, is_end = False, tname = ''span'',
             attrs = [(''data-tag'', t), (''class'', ''badge tag filter-tag'')],
             elements = es @ [tag_span t], unmodelled = False\<rparr>\<close>
    by (simp add: tok_defs tag_span_def)
  show ?thesis
    by (simp only: tokenize_append 1 value_dq [OF assms] append_Nil 2)
qed

lemma tokenize_tagHtml:
  assumes "text_plain t"
  shows "tokenize \<lparr>mode = Data, is_end = e, tname = tn, attrs = as,
             elements = es, unmodelled = False\<rparr> (tagHtml (Str t))
          = \<lparr>mode = Data, is_end = True, tname = ''span'', attrs = [],
             elements = es @ [tag_span t], unmodelled = False\<rparr>"
proof -
  have a: "attr_plain t" and b: "CHR ''<'' \<notin> set t"
    using assms by (simp_all add: text_plain_def)
  have 3: \<open>tokenize \<lparr>mode = Data, is_end = False, tname = ''span'',
             attrs = [(''data-tag'', t), (''class'', ''badge tag filter-tag'')],
             elements = es @ [tag_span t], unmodelled = False\<rparr> ''</span>\<newline>    ''
          = \<lparr>mode = Data, is_end = True, tname = ''span'', attrs = [],
             elements = es @ [tag_span t], unmodelled = False\<rparr>\<close>
    by (simp add: tok_defs)
  have \<open>tagHtml (Str t)
        = (''\<newline>        <span class="badge tag filter-tag" data-tag="'' @ t @ ''">'')
          @ t @ ''</span>\<newline>    ''\<close>
    by (simp add: tagHtml_def)
  then have "tokenize \<lparr>mode = Data, is_end = e, tname = tn, attrs = as,
             elements = es, unmodelled = False\<rparr> (tagHtml (Str t))
      = tokenize (tokenize (tokenize \<lparr>mode = Data, is_end = e, tname = tn, attrs = as,
             elements = es, unmodelled = False\<rparr>
            (''\<newline>        <span class=\"badge tag filter-tag\" data-tag=\"'' @ t @ ''\">'')) t)
            ''</span>\<newline>    ''"
    by (simp only: tokenize_append)
  then show ?thesis
    by (simp only: tokenize_tag_start [OF a] text_data [OF b] 3)
qed



lemma map_of_first_of_each:
  "map_of (first_of_each seen xs) k = (if k \<in> set seen then None else map_of xs k)"
  by (induction seen xs rule: first_of_each.induct) auto

lemma map_of_snoc_keeps: "map_of xs k = Some v \<Longrightarrow> map_of (xs @ [y]) k = Some v"
  by (simp add: map_add_Some_iff)

lemma map_of_rev_Cons_keeps: "map_of (rev r) k = Some v \<Longrightarrow> map_of (rev (x # r)) k = Some v"
  by (simp add: map_of_snoc_keeps)

lemma emit_pending:
  assumes "tn \<in> set start_tags" "\<not> unmodelled k" "elements k = es" "\<not> is_end k" "tname k = tn"
    "map_of (rev (attrs k)) dn = Some p"
  shows "reads_as tn dn p es (emit_tag k)"
  using assms
  by (simp add: reads_as_def emit_tag_def attribute_def map_of_first_of_each)

lemma reads_as_give_up: 
  "elements k = es \<Longrightarrow> reads_as tn dn p es (give_up k)"
  by (simp add: reads_as_def give_up_def)







lemma parse_tag_whole:
  assumes "text_plain t"
  shows "parse_fragment (tagHtml (Str t)) = ([tag_span t], Whole)"
proof -
  have "CHR 0x0D \<notin> set (tagHtml (Str t))"
    using assms by (simp add: tagHtml_def text_plain_def plain_no_cr)
  then show ?thesis
    by (simp add: parse_fragment_def Let_def normalize_id start_tokenizer_def
        tokenize_tagHtml [OF assms])
qed














subsection \<open>The filter bar\<close>

text \<open>The list that stands for \<open>activeFilters\<close> never holds a value twice.\<close>

lemma distinct_Set_add: "distinct A \<Longrightarrow> distinct (Set_add f A)"
  by (simp add: Set_add_def Set_has_def)

lemma distinct_Set_delete: "distinct A \<Longrightarrow> distinct (Set_delete f A)"
  by (simp add: Set_delete_def)

lemma distinct_after_addFilter:
  "distinct (activeFilters s) \<Longrightarrow> distinct (activeFilters (state_of (addFilter f s)))"
  by (simp add: addFilter_def distinct_Set_add)

lemma distinct_after_removeFilter:
  "distinct (activeFilters s) \<Longrightarrow> distinct (activeFilters (state_of (removeFilter f s)))"
  by (simp add: removeFilter_def distinct_Set_delete)

lemma distinct_after_clearFilters_click:
  "distinct (activeFilters (state_of (clearFilters_click s)))"
  by (simp add: clearFilters_click_def Set_clear_def)

lemma distinct_init_state: "distinct (activeFilters (init_state a b c))"
  by (simp add: init_state_def)




subsection \<open>Tags in the markup and read back from it\<close>




end
